theory Spec2Isabelle
  imports Complex_Main "HOL-Library.Sublist"
begin

section \<open>Python values\<close>

text \<open>
  A Python \<open>str\<close> is a sequence of Unicode code points, and \<open>len\<close> counts code
  points; the model is a list of code points. \<open>str\<close> turns an ASCII literal of the
  source into that list. \<open>bytes\<close> is a list of octets.
\<close>

type_synonym pystr = "nat list"

type_synonym bytes = "nat list"

definition str :: "string \<Rightarrow> pystr" where
  "str s = map of_char s"

text \<open>The apostrophe, which the source's messages contain.\<close>

definition squote :: pystr where
  "squote = [39]"

text \<open>
  A Python \<open>float\<close>: a finite number, an infinity or not-a-number. \<open>json.loads\<close>
  gives the last three for \<open>Infinity\<close>, \<open>-Infinity\<close>, \<open>NaN\<close>, and an infinity
  for a number out of range such as \<open>1e999\<close>.
\<close>

datatype pyfloat = Finite real | PosInf | NegInf | NaN

fun is_finite :: "pyfloat \<Rightarrow> bool" where
  "is_finite (Finite r) = True"
| "is_finite f = False"

text \<open>
  The value of \<open>response.json()\<close>: a parsed JSON document. A JSON object is a Python
  \<open>dict\<close>: its items in insertion order, the keys distinct.
\<close>

datatype json =
    JNull
  | JBool bool
  | JInt int
  | JFloat pyfloat
  | JStr pystr
  | JArr "json list"
  | JObj "(pystr \<times> json) list"

text \<open>
  The exceptions the two files can raise or meet. \<open>JSONDecodeError\<close> is a subclass of
  \<open>ValueError\<close>, and so is \<open>UnicodeEncodeError\<close>; \<open>OutOfRangeFloat\<close> is the plain
  \<open>ValueError\<close> that \<open>json.dumps\<close> raises for an infinity or a not-a-number when
  it is called with \<open>allow_nan=False\<close>. The messages of these last two are composed by
  the libraries and are not modelled. \<open>HTTPStatusError\<close> (raised by
  \<open>raise_for_status\<close>) and \<open>TransportError\<close> (connection refused, timeout) are
  subclasses of \<open>httpx.HTTPError\<close>. \<open>HTTPException\<close> is FastAPI's, a direct subclass
  of \<open>Exception\<close>, with its status code and detail; \<open>HTTPExceptionStr c e\<close> is the
  \<open>HTTPException\<close> of status \<open>c\<close> whose detail is \<open>str(e)\<close>, for an \<open>e\<close> whose
  message is not modelled.
\<close>

datatype exn =
    ValueError pystr
  | JSONDecodeError pystr
  | OutOfRangeFloat
  | UnicodeEncodeError
  | KeyError
  | TypeError
  | AttributeError
  | HTTPStatusError int
  | TransportError
  | HTTPException int pystr
  | HTTPExceptionStr int exn

fun is_ValueError :: "exn \<Rightarrow> bool" where
  "is_ValueError (ValueError m) = True"
| "is_ValueError (JSONDecodeError m) = True"
| "is_ValueError OutOfRangeFloat = True"
| "is_ValueError UnicodeEncodeError = True"
| "is_ValueError e = False"

fun is_HTTPError :: "exn \<Rightarrow> bool" where
  "is_HTTPError (HTTPStatusError c) = True"
| "is_HTTPError TransportError = True"
| "is_HTTPError e = False"

text \<open>
  \<open>HTTPException(status_code=c, detail=str(e))\<close>: the detail is the message of \<open>e\<close>
  where the exception carries it.
\<close>

fun HTTPException_of_str :: "int \<Rightarrow> exn \<Rightarrow> exn" where
  "HTTPException_of_str c (ValueError m) = HTTPException c m"
| "HTTPException_of_str c (JSONDecodeError m) = HTTPException c m"
| "HTTPException_of_str c e = HTTPExceptionStr c e"

text \<open>
  Whether a document holds an infinity or a not-a-number anywhere, which
  \<open>json.dumps(..., allow_nan=False)\<close> refuses to write.
\<close>

fun out_of_range :: "json \<Rightarrow> bool" where
  "out_of_range (JFloat f) = (\<not> is_finite f)"
| "out_of_range (JArr xs) = list_ex out_of_range xs"
| "out_of_range (JObj kvs) = list_ex out_of_range (map snd kvs)"
| "out_of_range x = False"

text \<open>\<open>s.startswith(p)\<close>.\<close>

fun startswith :: "pystr \<Rightarrow> pystr \<Rightarrow> bool" where
  "startswith s [] = True"
| "startswith [] (p # ps) = False"
| "startswith (c # cs) (p # ps) = (c = p \<and> startswith cs ps)"

text \<open>
  \<open>d[k] = v\<close> on a dict: an existing key keeps its place and takes the new value, a new
  key goes to the end.
\<close>

fun dict_setitem :: "pystr \<Rightarrow> json \<Rightarrow> (pystr \<times> json) list \<Rightarrow> (pystr \<times> json) list" where
  "dict_setitem k v [] = [(k, v)]"
| "dict_setitem k v ((k', v') # kvs) =
     (if k' = k then (k, v) # kvs else (k', v') # dict_setitem k v kvs)"

text \<open>
  \<open>x[k] = v\<close> with a string key on a parsed JSON value: only a dict accepts it, every
  other value raises \<open>TypeError\<close>.
\<close>

fun py_setitem :: "json \<Rightarrow> pystr \<Rightarrow> json \<Rightarrow> exn + json" where
  "py_setitem (JObj kvs) k v = Inr (JObj (dict_setitem k v kvs))"
| "py_setitem x k v = Inl TypeError"

text \<open>\<open>x[k]\<close> with a string key: \<open>KeyError\<close> on a dict without the key,
  \<open>TypeError\<close> on every other value.\<close>

fun py_getitem :: "json \<Rightarrow> pystr \<Rightarrow> exn + json" where
  "py_getitem (JObj kvs) k = (case map_of kvs k of None \<Rightarrow> Inl KeyError | Some v \<Rightarrow> Inr v)"
| "py_getitem x k = Inl TypeError"

text \<open>\<open>x.get(k, default)\<close>: only a dict has the method.\<close>

fun py_get :: "json \<Rightarrow> pystr \<Rightarrow> json \<Rightarrow> exn + json" where
  "py_get (JObj kvs) k d = Inr (case map_of kvs k of None \<Rightarrow> d | Some v \<Rightarrow> v)"
| "py_get x k d = Inl AttributeError"

text \<open>
  \<open>for y in x\<close>: a list gives its elements, a dict its keys, a string its characters;
  the other values are not iterable.
\<close>

fun py_iter :: "json \<Rightarrow> exn + json list" where
  "py_iter (JArr xs) = Inr xs"
| "py_iter (JObj kvs) = Inr (map (\<lambda>kv. JStr (fst kv)) kvs)"
| "py_iter (JStr s) = Inr (map (\<lambda>c. JStr [c]) s)"
| "py_iter x = Inl TypeError"

text \<open>
  A replacement field of an f-string: a string is inserted as it is; any other value
  through Python's \<open>str()\<close>, taken here as the parameter \<open>py_str\<close>.
\<close>

fun format_value :: "(json \<Rightarrow> pystr) \<Rightarrow> json \<Rightarrow> pystr" where
  "format_value py_str (JStr s) = s"
| "format_value py_str x = py_str x"

section \<open>The engine, seen through httpx\<close>

datatype http_method = GET | POST

datatype param = PInt int | PStr pystr

record http_request =
  verb :: http_method
  url :: pystr
  params :: "(pystr \<times> param) list"
  json_body :: "json option"
  timeout :: real

text \<open>
  A response: its status code, its body, and what \<open>response.json()\<close> gives on that
  body (\<open>Inl m\<close>: it raises \<open>JSONDecodeError\<close> with message \<open>m\<close>).
\<close>

record http_response =
  status_code :: int
  content :: bytes
  json_result :: "pystr + json"

text \<open>A call either returns a response or raises.\<close>

datatype outcome = Response http_response | Raises exn

text \<open>
  The engine is the environment: from its own state \<open>'w\<close> and a request it gives
  an outcome and its next state. \<open>net\<close> is what a run has done to the network: the
  requests issued so far, oldest first, and the engine's state.
\<close>

type_synonym 'w engine = "'w \<Rightarrow> http_request \<Rightarrow> outcome \<times> 'w"

record 'w net =
  calls :: "http_request list"
  world :: 'w

definition send :: "'w engine \<Rightarrow> http_request \<Rightarrow> 'w net \<Rightarrow> outcome \<times> 'w net" where
  "send E q n =
     (case E (world n) q of
        (out, w') \<Rightarrow> (out, \<lparr>calls = calls n @ [q], world = w'\<rparr>))"

text \<open>
  \<open>response.raise_for_status()\<close>, as httpx has it: a status code from 200 to 299 is a
  success, every other one raises \<open>HTTPStatusError\<close>.
\<close>

definition raise_for_status :: "http_response \<Rightarrow> exn + unit" where
  "raise_for_status r =
     (if 200 \<le> status_code r \<and> status_code r \<le> 299 then Inr ()
      else Inl (HTTPStatusError (status_code r)))"

text \<open>
  The \<open>json=\<close> argument of \<open>client.post\<close>, as httpx encodes it while it builds the
  request, before anything is sent: \<open>None\<close> is no body; a document with an infinity or
  a not-a-number raises \<open>ValueError\<close>; any other document is the body.
\<close>

definition json_argument :: "json \<Rightarrow> exn + json option" where
  "json_argument doc =
     (if doc = JNull then Inr None
      else if out_of_range doc then Inl OutOfRangeFloat
      else Inr (Some doc))"

section \<open>AivisSpeechTTSProvider\<close>

text \<open>
  \<open>BASE_URL = os.getenv("AIVIS_API_ENDPOINT", "http://127.0.0.1:10101")\<close>: the
  argument is the value of the environment variable, \<open>None\<close> when it is not set.
\<close>

definition BASE_URL :: "pystr option \<Rightarrow> pystr" where
  "BASE_URL env = (case env of None \<Rightarrow> str ''http://127.0.0.1:10101'' | Some v \<Rightarrow> v)"

text \<open>The registry, in its declaration order (the order a dict iterates in).\<close>

definition SPEAKERS :: "(pystr \<times> (pystr \<times> int) list) list" where
  "SPEAKERS =
     [(str ''mao'',
        [(str ''normal'', 888753760),
         (str ''futsuu'', 888753761),
         (str ''amama'', 888753762),
         (str ''ochitsuki'', 888753763),
         (str ''karakai'', 888753764),
         (str ''setsunane'', 888753765)]),
      (str ''kohaku'',
        [(str ''normal'', 1878365376),
         (str ''amama'', 1878365377),
         (str ''setsunane'', 1878365378),
         (str ''nemutai'', 1878365379)])]"

text \<open>\<open>f"{speaker_name}_{style_name}"\<close>.\<close>

definition compound_id :: "pystr \<Rightarrow> pystr \<Rightarrow> pystr" where
  "compound_id speaker_name style_name = speaker_name @ str ''_'' @ style_name"

text \<open>The inner loop of \<open>parse_voice_id\<close>, over \<open>styles.keys()\<close>.\<close>

fun parse_styles :: "pystr \<Rightarrow> pystr list \<Rightarrow> pystr \<Rightarrow> (pystr \<times> pystr) option" where
  "parse_styles speaker_name [] voice_id = None"
| "parse_styles speaker_name (style_name # rest) voice_id =
     (if startswith voice_id (compound_id speaker_name style_name)
      then Some (speaker_name, style_name)
      else parse_styles speaker_name rest voice_id)"

text \<open>The outer loop, over \<open>SPEAKERS.items()\<close>.\<close>

fun parse_speakers ::
  "(pystr \<times> (pystr \<times> int) list) list \<Rightarrow> pystr \<Rightarrow> (pystr \<times> pystr) option" where
  "parse_speakers [] voice_id = None"
| "parse_speakers ((speaker_name, styles) # rest) voice_id =
     (case parse_styles speaker_name (map fst styles) voice_id of
        Some r \<Rightarrow> Some r
      | None \<Rightarrow> parse_speakers rest voice_id)"

definition parse_voice_id :: "pystr \<Rightarrow> (pystr \<times> pystr) option" where
  "parse_voice_id voice_id = parse_speakers SPEAKERS voice_id"

text \<open>\<open>cls.SPEAKERS[speaker_name][style_name]\<close>.\<close>

definition style_id_of :: "pystr \<Rightarrow> pystr \<Rightarrow> exn + int" where
  "style_id_of speaker_name style_name =
     (case map_of SPEAKERS speaker_name of
        None \<Rightarrow> Inl KeyError
      | Some styles \<Rightarrow>
          (case map_of styles style_name of
             None \<Rightarrow> Inl KeyError
           | Some style_id \<Rightarrow> Inr style_id))"

text \<open>The message of the \<open>ValueError\<close> of \<open>synthesize\<close>.\<close>

definition invalid_voice_message :: "pystr \<Rightarrow> pystr" where
  "invalid_voice_message voice =
     str ''Invalid voice_id '' @ squote @ voice @ squote @ str ''. '' @
     str ''Expected format: '' @ squote @ str ''speaker_style'' @ squote @
     str '' (e.g., '' @ squote @ str ''kohaku_normal'' @ squote @ str '')''"

text \<open>The three requests the provider builds.\<close>

definition speakers_request :: "pystr option \<Rightarrow> real \<Rightarrow> http_request" where
  "speakers_request env t =
     \<lparr>verb = GET, url = BASE_URL env @ str ''/speakers'', params = [],
      json_body = None, timeout = t\<rparr>"

definition audio_query_request :: "pystr option \<Rightarrow> int \<Rightarrow> pystr \<Rightarrow> http_request" where
  "audio_query_request env style_id text =
     \<lparr>verb = POST, url = BASE_URL env @ str ''/audio_query'',
      params = [(str ''speaker'', PInt style_id), (str ''text'', PStr text)],
      json_body = None, timeout = 30\<rparr>"

definition synthesis_request :: "pystr option \<Rightarrow> int \<Rightarrow> json option \<Rightarrow> http_request" where
  "synthesis_request env style_id body =
     \<lparr>verb = POST, url = BASE_URL env @ str ''/synthesis'',
      params = [(str ''speaker'', PInt style_id)],
      json_body = body, timeout = 60\<rparr>"

text \<open>
  \<open>if speed != 1.0: audio_query["speedScale"] = speed\<close>. The speed is a finite float:
  the route admits 0.5 to 2.0 only.
\<close>

definition adjust_speed :: "real \<Rightarrow> json \<Rightarrow> exn + json" where
  "adjust_speed speed audio_query =
     (if speed \<noteq> 1 then py_setitem audio_query (str ''speedScale'') (JFloat (Finite speed))
      else Inr audio_query)"

text \<open>
  \<open>synthesize\<close>. Both \<open>except\<close> clauses log and re-raise, so an exception of the
  body is the exception of the call. The result comes with the network as the call
  leaves it.
\<close>

definition synthesize ::
  "'w engine \<Rightarrow> pystr option \<Rightarrow> pystr \<Rightarrow> pystr \<Rightarrow> real \<Rightarrow> 'w net \<Rightarrow> (exn + bytes) \<times> 'w net" where
  "synthesize E env text voice speed n =
     (case parse_voice_id voice of
        None \<Rightarrow> (Inl (ValueError (invalid_voice_message voice)), n)
      | Some (speaker_name, style_name) \<Rightarrow>
          (case style_id_of speaker_name style_name of
             Inl e \<Rightarrow> (Inl e, n)
           | Inr style_id \<Rightarrow>
               (case send E (audio_query_request env style_id text) n of
                  (Raises e, n1) \<Rightarrow> (Inl e, n1)
                | (Response query_response, n1) \<Rightarrow>
                    (case raise_for_status query_response of
                       Inl e \<Rightarrow> (Inl e, n1)
                     | Inr u \<Rightarrow>
                         (case json_result query_response of
                            Inl m \<Rightarrow> (Inl (JSONDecodeError m), n1)
                          | Inr audio_query \<Rightarrow>
                              (case adjust_speed speed audio_query of
                                 Inl e \<Rightarrow> (Inl e, n1)
                               | Inr audio_query' \<Rightarrow>
                                   (case json_argument audio_query' of
                                      Inl e \<Rightarrow> (Inl e, n1)
                                    | Inr body \<Rightarrow>
                                        (case send E (synthesis_request env style_id body) n1 of
                                           (Raises e, n2) \<Rightarrow> (Inl e, n2)
                                         | (Response synth_response, n2) \<Rightarrow>
                                             (case raise_for_status synth_response of
                                                Inl e \<Rightarrow> (Inl e, n2)
                                              | Inr u' \<Rightarrow>
                                                  (Inr (content synth_response), n2))))))))))"

text \<open>One record of \<open>get_available_voices\<close>: the dict appended for a speaker and a style.\<close>

definition voice_record :: "(json \<Rightarrow> pystr) \<Rightarrow> json \<Rightarrow> json \<Rightarrow> exn + json" where
  "voice_record py_str speaker style =
     (case py_getitem speaker (str ''name'') of
        Inl e \<Rightarrow> Inl e
      | Inr speaker_name \<Rightarrow>
          (case py_getitem style (str ''name'') of
             Inl e \<Rightarrow> Inl e
           | Inr style_name \<Rightarrow>
               (case py_getitem style (str ''id'') of
                  Inl e \<Rightarrow> Inl e
                | Inr style_id \<Rightarrow>
                    Inr (JObj
                      [(str ''id'',
                          JStr (format_value py_str speaker_name @ str ''_'' @
                                format_value py_str style_name)),
                       (str ''name'', style_name),
                       (str ''speaker'', speaker_name),
                       (str ''style_id'', style_id)]))))"

text \<open>The inner loop, over the styles of one speaker.\<close>

fun voices_of_styles :: "(json \<Rightarrow> pystr) \<Rightarrow> json \<Rightarrow> json list \<Rightarrow> exn + json list" where
  "voices_of_styles py_str speaker [] = Inr []"
| "voices_of_styles py_str speaker (style # rest) =
     (case voice_record py_str speaker style of
        Inl e \<Rightarrow> Inl e
      | Inr v \<Rightarrow>
          (case voices_of_styles py_str speaker rest of
             Inl e \<Rightarrow> Inl e
           | Inr vs \<Rightarrow> Inr (v # vs)))"

text \<open>The outer loop, over the speakers of the catalog.\<close>

fun voices_of_speakers :: "(json \<Rightarrow> pystr) \<Rightarrow> json list \<Rightarrow> exn + json list" where
  "voices_of_speakers py_str [] = Inr []"
| "voices_of_speakers py_str (speaker # rest) =
     (case py_get speaker (str ''styles'') (JArr []) of
        Inl e \<Rightarrow> Inl e
      | Inr styles \<Rightarrow>
          (case py_iter styles of
             Inl e \<Rightarrow> Inl e
           | Inr sts \<Rightarrow>
               (case voices_of_styles py_str speaker sts of
                  Inl e \<Rightarrow> Inl e
                | Inr vs \<Rightarrow>
                    (case voices_of_speakers py_str rest of
                       Inl e \<Rightarrow> Inl e
                     | Inr ws \<Rightarrow> Inr (vs @ ws)))))"

text \<open>The body of the \<open>try\<close> of \<open>get_available_voices\<close>.\<close>

definition get_available_voices_try ::
  "'w engine \<Rightarrow> pystr option \<Rightarrow> (json \<Rightarrow> pystr) \<Rightarrow> 'w net \<Rightarrow> (exn + json list) \<times> 'w net" where
  "get_available_voices_try E env py_str n =
     (case send E (speakers_request env 10) n of
        (Raises e, n1) \<Rightarrow> (Inl e, n1)
      | (Response response, n1) \<Rightarrow>
          (case raise_for_status response of
             Inl e \<Rightarrow> (Inl e, n1)
           | Inr u \<Rightarrow>
               (case json_result response of
                  Inl m \<Rightarrow> (Inl (JSONDecodeError m), n1)
                | Inr speakers \<Rightarrow>
                    (case py_iter speakers of
                       Inl e \<Rightarrow> (Inl e, n1)
                     | Inr sps \<Rightarrow> (voices_of_speakers py_str sps, n1)))))"

text \<open>\<open>except Exception: return []\<close>.\<close>

definition get_available_voices ::
  "'w engine \<Rightarrow> pystr option \<Rightarrow> (json \<Rightarrow> pystr) \<Rightarrow> 'w net \<Rightarrow> json list \<times> 'w net" where
  "get_available_voices E env py_str n =
     (case get_available_voices_try E env py_str n of
        (Inl e, n1) \<Rightarrow> ([], n1)
      | (Inr voices, n1) \<Rightarrow> (voices, n1))"

text \<open>\<open>health_check\<close> of the provider.\<close>

definition health_check :: "'w engine \<Rightarrow> pystr option \<Rightarrow> 'w net \<Rightarrow> bool \<times> 'w net" where
  "health_check E env n =
     (case send E (speakers_request env 5) n of
        (Raises e, n1) \<Rightarrow> (False, n1)
      | (Response response, n1) \<Rightarrow> (status_code response = 200, n1))"

section \<open>The router\<close>

text \<open>
  \<open>c.isspace()\<close> for one character, which is what \<open>str.strip()\<close> removes: the
  ASCII white space with the separators 28 to 31, and the Unicode white space.
\<close>

definition py_isspace :: "nat \<Rightarrow> bool" where
  "py_isspace c =
     ((9 \<le> c \<and> c \<le> 13) \<or> (28 \<le> c \<and> c \<le> 32) \<or> c = 133 \<or> c = 160 \<or> c = 5760 \<or>
      (8192 \<le> c \<and> c \<le> 8202) \<or> c = 8232 \<or> c = 8233 \<or> c = 8239 \<or> c = 8287 \<or>
      c = 12288)"

definition strip :: "pystr \<Rightarrow> pystr" where
  "strip s = rev (dropWhile py_isspace (rev (dropWhile py_isspace s)))"

definition dquote :: pystr where
  "dquote = [34]"

text \<open>
  \<open>SpeechRequest\<close>, after pydantic has validated the body. The bounds of \<open>speed\<close>
  (\<open>ge=0.5, le=2.0\<close>) are \<open>speech_request_valid\<close>.
\<close>

record SpeechRequest =
  input :: pystr
  model :: pystr
  voice :: pystr
  speed :: real

definition speech_request_valid :: "SpeechRequest \<Rightarrow> bool" where
  "speech_request_valid request = (1 / 2 \<le> speed request \<and> speed request \<le> 2)"

text \<open>FastAPI's \<open>Response\<close>, as \<open>create_speech\<close> builds it.\<close>

record api_response =
  resp_content :: bytes
  media_type :: pystr
  headers :: "(pystr \<times> pystr) list"

text \<open>
  \<open>Response(content=..., media_type=..., headers=...)\<close>: the constructor encodes the
  header names and values as Latin-1, and raises \<open>UnicodeEncodeError\<close> on a code point
  above 255.
\<close>

definition latin1 :: "pystr \<Rightarrow> bool" where
  "latin1 s = list_all (\<lambda>c. c < 256) s"

definition Response_init ::
  "bytes \<Rightarrow> pystr \<Rightarrow> (pystr \<times> pystr) list \<Rightarrow> exn + api_response" where
  "Response_init c t hs =
     (if list_all (\<lambda>h. latin1 (fst h) \<and> latin1 (snd h)) hs
      then Inr \<lparr>resp_content = c, media_type = t, headers = hs\<rparr>
      else Inl UnicodeEncodeError)"

text \<open>The body of the \<open>try\<close> of \<open>create_speech\<close>.\<close>

definition create_speech_try ::
  "'w engine \<Rightarrow> pystr option \<Rightarrow> SpeechRequest \<Rightarrow> 'w net \<Rightarrow> (exn + api_response) \<times> 'w net" where
  "create_speech_try E env request n =
     (if input request = [] \<or> length (strip (input request)) = 0
      then (Inl (HTTPException 400 (str ''Input text cannot be empty'')), n)
      else if length (input request) > 5000
      then (Inl (HTTPException 400 (str ''Input text too long (max 5000 characters)'')), n)
      else
        (case synthesize E env (input request) (voice request) (speed request) n of
           (Inl e, n1) \<Rightarrow> (Inl e, n1)
         | (Inr audio_data, n1) \<Rightarrow>
             (Response_init audio_data (str ''audio/wav'')
                [(str ''Content-Disposition'',
                    str ''attachment; filename='' @ dquote @ str ''speech_'' @
                    voice request @ str ''.wav'' @ dquote),
                 (str ''X-Model-Used'', str ''aivis-speech''),
                 (str ''X-Voice-Used'', voice request)], n1)))"

text \<open>
  \<open>create_speech\<close>: the two \<open>except\<close> clauses around that body, in their order.
  \<open>except ValueError\<close> takes a \<open>ValueError\<close> and its subclasses; \<open>except Exception\<close>
  takes every other exception raised in the body, \<open>HTTPException\<close> among them.
\<close>

definition create_speech ::
  "'w engine \<Rightarrow> pystr option \<Rightarrow> SpeechRequest \<Rightarrow> 'w net \<Rightarrow> (exn + api_response) \<times> 'w net" where
  "create_speech E env request n =
     (case create_speech_try E env request n of
        (Inr response, n1) \<Rightarrow> (Inr response, n1)
      | (Inl e, n1) \<Rightarrow>
          (if is_ValueError e then (Inl (HTTPException_of_str 400 e), n1)
           else (Inl (HTTPException 500 (str ''Failed to generate speech'')), n1)))"

text \<open>\<open>list_voices\<close>: \<open>get_available_voices\<close> never raises, so neither does it.\<close>

definition list_voices ::
  "'w engine \<Rightarrow> pystr option \<Rightarrow> (json \<Rightarrow> pystr) \<Rightarrow> 'w net \<Rightarrow> json \<times> 'w net" where
  "list_voices E env py_str n =
     (case get_available_voices E env py_str n of
        (voices, n1) \<Rightarrow> (JObj [(str ''object'', JStr (str ''list'')), (str ''data'', JArr voices)], n1))"

text \<open>The \<open>/health\<close> route.\<close>

definition health_check_route :: "'w engine \<Rightarrow> pystr option \<Rightarrow> 'w net \<Rightarrow> json \<times> 'w net" where
  "health_check_route E env n =
     (case health_check E env n of
        (is_healthy, n1) \<Rightarrow>
          (JObj [(str ''status'', JStr (if is_healthy then str ''healthy'' else str ''unhealthy'')),
                 (str ''provider'', JStr (str ''aivis-speech'')),
                 (str ''endpoint'', JStr (str ''http://127.0.0.1:10101''))], n1))"

section \<open>What the specification says, in its own words\<close>

text \<open>
  The declared (speaker, style) pairs, speakers first and then styles, in declaration
  order.
\<close>

definition declared_pairs :: "(pystr \<times> pystr) list" where
  "declared_pairs =
     concat (map (\<lambda>entry. map (\<lambda>style. (fst entry, fst style)) (snd entry)) SPEAKERS)"

text \<open>
  The resolver of the specification: the first declared pair whose compound
  \<open>speaker_style\<close> is a prefix of the identifier.
\<close>

definition resolve :: "pystr \<Rightarrow> (pystr \<times> pystr) option" where
  "resolve voice_id =
     find (\<lambda>pair. prefix (compound_id (fst pair) (snd pair)) voice_id) declared_pairs"

text \<open>
  A catalog as the specification sees it: speakers with a name, each with styles of a
  name and a numeric id. A JSON speaker stands for such an entry when its \<open>name\<close> and
  \<open>styles\<close> read so; it may have other fields, and a missing \<open>styles\<close> is no style.
\<close>

definition style_represents :: "json \<Rightarrow> pystr \<times> int \<Rightarrow> bool" where
  "style_represents style p =
     (py_getitem style (str ''name'') = Inr (JStr (fst p)) \<and>
      py_getitem style (str ''id'') = Inr (JInt (snd p)))"

definition speaker_represents :: "json \<Rightarrow> pystr \<times> (pystr \<times> int) list \<Rightarrow> bool" where
  "speaker_represents speaker p =
     (py_getitem speaker (str ''name'') = Inr (JStr (fst p)) \<and>
      (case py_get speaker (str ''styles'') (JArr []) of
         Inr (JArr styles) \<Rightarrow> list_all2 style_represents styles (snd p)
       | _ \<Rightarrow> False))"

text \<open>
  The flattened list: one record for each speaker and each of its styles, under the
  keys the code gives it: \<open>id\<close>, \<open>name\<close>, \<open>speaker\<close> and \<open>style_id\<close>.
\<close>

definition flat_voice :: "pystr \<Rightarrow> pystr \<times> int \<Rightarrow> json" where
  "flat_voice speaker_name style =
     JObj [(str ''id'', JStr (speaker_name @ str ''_'' @ fst style)),
           (str ''name'', JStr (fst style)),
           (str ''speaker'', JStr speaker_name),
           (str ''style_id'', JInt (snd style))]"

definition flatten_voices :: "(pystr \<times> (pystr \<times> int) list) list \<Rightarrow> json list" where
  "flatten_voices catalog =
     concat (map (\<lambda>entry. map (flat_voice (fst entry)) (snd entry)) catalog)"

section \<open>Test doubles\<close>

text \<open>
  An engine that answers the calls it receives from a script, in order, and refuses the
  connection once the script is used up. Its state is the number of calls served.
\<close>

definition scripted :: "outcome list \<Rightarrow> nat engine" where
  "scripted outs w q = (if w < length outs then outs ! w else Raises TransportError, Suc w)"

definition fresh :: "nat net" where
  "fresh = \<lparr>calls = [], world = 0\<rparr>"

definition ok_json :: "json \<Rightarrow> outcome" where
  "ok_json doc = Response \<lparr>status_code = 200, content = [], json_result = Inr doc\<rparr>"

definition ok_audio :: "bytes \<Rightarrow> outcome" where
  "ok_audio wav =
     Response \<lparr>status_code = 200, content = wav, json_result = Inl (str ''Expecting value'')\<rparr>"

definition server_error :: outcome where
  "server_error =
     Response \<lparr>status_code = 500, content = [], json_result = Inl (str ''Expecting value'')\<rparr>"

text \<open>A query document and an audio body for the engine to return.\<close>

definition sample_query :: json where
  "sample_query =
     JObj [(str ''accent_phrases'', JArr []),
           (str ''speedScale'', JFloat (Finite 1)),
           (str ''pitchScale'', JFloat (Finite 0))]"

definition sample_wav :: bytes where
  "sample_wav = [82, 73, 70, 70]"

text \<open>An engine that answers the audio query and then the synthesis.\<close>

definition happy_engine :: "nat engine" where
  "happy_engine = scripted [ok_json sample_query, ok_audio sample_wav]"





text \<open>An engine whose first answer is HTTP 500.\<close>

definition failing_engine :: "nat engine" where
  "failing_engine = scripted [server_error]"

text \<open>An engine that cannot be reached.\<close>

definition unreachable_engine :: "nat engine" where
  "unreachable_engine = scripted []"

text \<open>A catalog of one speaker with one style, and an engine that returns it.\<close>

definition sample_catalog :: json where
  "sample_catalog =
     JArr [JObj [(str ''name'', JStr (str ''kohaku'')),
                 (str ''styles'',
                    JArr [JObj [(str ''name'', JStr (str ''normal'')),
                                (str ''id'', JInt 1878365376)]])]]"

definition catalog_engine :: "nat engine" where
  "catalog_engine = scripted [ok_json sample_catalog]"

text \<open>A request with an empty input, and the same request with another input.\<close>

definition empty_request :: SpeechRequest where
  "empty_request =
     \<lparr>input = [], model = str ''aivis-speech'', voice = str ''kohaku_normal'', speed = 1\<rparr>"

definition request_with :: "pystr \<Rightarrow> SpeechRequest" where
  "request_with s = empty_request\<lparr>input := s\<rparr>"

section \<open>The resolver\<close>

lemma startswith_prefix: "startswith s p = prefix p s"
  by (induction s p rule: startswith.induct) auto

lemma find_append_first:
  "find P (xs @ ys) = (case find P xs of None \<Rightarrow> find P ys | Some x \<Rightarrow> Some x)"
  by (induction xs) auto

lemma parse_styles_find:
  "parse_styles sp sts v =
     find (\<lambda>pair. prefix (compound_id (fst pair) (snd pair)) v) (map (\<lambda>st. (sp, st)) sts)"
  by (induction sts) (auto simp: startswith_prefix)

lemma parse_speakers_find:
  "parse_speakers reg v =
     find (\<lambda>pair. prefix (compound_id (fst pair) (snd pair)) v)
       (concat (map (\<lambda>entry. map (\<lambda>style. (fst entry, fst style)) (snd entry)) reg))"
proof (induction reg)
  case Nil
  show ?case by simp
next
  case (Cons entry reg)
  obtain sp styles where entry: "entry = (sp, styles)" by (cases entry)
  show ?case
    by (simp add: entry Cons.IH find_append_first parse_styles_find comp_def
        split: option.splits)
qed

lemma parse_voice_id_resolve: "parse_voice_id v = resolve v"
  by (simp add: parse_voice_id_def resolve_def declared_pairs_def parse_speakers_find)

lemma declared_pairs_eq:
  "declared_pairs =
     [(str ''mao'', str ''normal''), (str ''mao'', str ''futsuu''), (str ''mao'', str ''amama''),
      (str ''mao'', str ''ochitsuki''), (str ''mao'', str ''karakai''),
      (str ''mao'', str ''setsunane''), (str ''kohaku'', str ''normal''),
      (str ''kohaku'', str ''amama''), (str ''kohaku'', str ''setsunane''),
      (str ''kohaku'', str ''nemutai'')]"
  by (simp add: declared_pairs_def SPEAKERS_def)

lemma declared_pairs_cases:
  assumes "(sp, st) \<in> set declared_pairs"
  obtains
      "sp = str ''mao''" "st = str ''normal''"
    | "sp = str ''mao''" "st = str ''futsuu''"
    | "sp = str ''mao''" "st = str ''amama''"
    | "sp = str ''mao''" "st = str ''ochitsuki''"
    | "sp = str ''mao''" "st = str ''karakai''"
    | "sp = str ''mao''" "st = str ''setsunane''"
    | "sp = str ''kohaku''" "st = str ''normal''"
    | "sp = str ''kohaku''" "st = str ''amama''"
    | "sp = str ''kohaku''" "st = str ''setsunane''"
    | "sp = str ''kohaku''" "st = str ''nemutai''"
  using assms unfolding declared_pairs_eq by auto

lemma resolves_with_suffix:
  assumes "(sp, st) \<in> set declared_pairs"
  shows "parse_voice_id (compound_id sp st @ x) = Some (sp, st)"
  using assms
  by (cases rule: declared_pairs_cases)
     (simp_all add: parse_voice_id_def SPEAKERS_def compound_id_def str_def)

lemma style_id_of_declared:
  assumes "(sp, st) \<in> set declared_pairs"
  shows "\<exists>sid. style_id_of sp st = Inr sid"
  using assms
  by (cases rule: declared_pairs_cases)
     (simp_all add: style_id_of_def SPEAKERS_def str_def)

lemma parse_voice_id_declared:
  assumes "parse_voice_id v = Some (sp, st)"
  shows "(sp, st) \<in> set declared_pairs"
  using assms unfolding parse_voice_id_resolve resolve_def
  by (auto simp: find_Some_iff)

lemma resolve_None_iff:
  "(resolve v = None) = (\<forall>p\<in>set declared_pairs. \<not> prefix (compound_id (fst p) (snd p)) v)"
  by (auto simp: resolve_def find_None_iff)

text \<open>
  C3. For every identifier, \<open>parse_voice_id\<close> returns the first pair, in the
  registry's declaration order over speakers and then styles, whose compound
  \<open>speaker_style\<close> is a prefix of the identifier. A declared compound followed by any
  suffix resolves to its pair (\<open>kohaku_normal_ja\<close> to kohaku and normal), and the result
  is \<open>None\<close> exactly when no declared compound is a prefix of the identifier.
\<close>

theorem parse_voice_id_first_prefix_match:
  "parse_voice_id v =
     find (\<lambda>pair. prefix (compound_id (fst pair) (snd pair)) v) declared_pairs \<and>
   declared_pairs =
     [(str ''mao'', str ''normal''), (str ''mao'', str ''futsuu''), (str ''mao'', str ''amama''),
      (str ''mao'', str ''ochitsuki''), (str ''mao'', str ''karakai''),
      (str ''mao'', str ''setsunane''), (str ''kohaku'', str ''normal''),
      (str ''kohaku'', str ''amama''), (str ''kohaku'', str ''setsunane''),
      (str ''kohaku'', str ''nemutai'')] \<and>
   (\<forall>p\<in>set declared_pairs. \<forall>x. parse_voice_id (compound_id (fst p) (snd p) @ x) = Some p) \<and>
   parse_voice_id (str ''kohaku_normal_ja'') = Some (str ''kohaku'', str ''normal'') \<and>
   (parse_voice_id v = None) =
     (\<forall>p\<in>set declared_pairs. \<not> prefix (compound_id (fst p) (snd p)) v)"
proof (intro conjI)
  show "parse_voice_id v =
     find (\<lambda>pair. prefix (compound_id (fst pair) (snd pair)) v) declared_pairs"
    by (simp add: parse_voice_id_resolve resolve_def)
  show "declared_pairs =
     [(str ''mao'', str ''normal''), (str ''mao'', str ''futsuu''), (str ''mao'', str ''amama''),
      (str ''mao'', str ''ochitsuki''), (str ''mao'', str ''karakai''),
      (str ''mao'', str ''setsunane''), (str ''kohaku'', str ''normal''),
      (str ''kohaku'', str ''amama''), (str ''kohaku'', str ''setsunane''),
      (str ''kohaku'', str ''nemutai'')]"
    by (rule declared_pairs_eq)
  show "\<forall>p\<in>set declared_pairs. \<forall>x. parse_voice_id (compound_id (fst p) (snd p) @ x) = Some p"
  proof (intro ballI allI)
    fix p :: "pystr \<times> pystr" and x
    assume "p \<in> set declared_pairs"
    then have "(fst p, snd p) \<in> set declared_pairs" by simp
    then have "parse_voice_id (compound_id (fst p) (snd p) @ x) = Some (fst p, snd p)"
      by (rule resolves_with_suffix)
    then show "parse_voice_id (compound_id (fst p) (snd p) @ x) = Some p" by simp
  qed
  show "parse_voice_id (str ''kohaku_normal_ja'') = Some (str ''kohaku'', str ''normal'')"
    by code_simp
  show "(parse_voice_id v = None) =
     (\<forall>p\<in>set declared_pairs. \<not> prefix (compound_id (fst p) (snd p)) v)"
    by (simp only: parse_voice_id_resolve resolve_None_iff)
qed

theorem parse_voice_id_first_prefix_match_witness:
  "parse_voice_id (str ''mao_amama_ja'') =
     find (\<lambda>pair. prefix (compound_id (fst pair) (snd pair)) (str ''mao_amama_ja''))
       declared_pairs \<and>
   find (\<lambda>pair. prefix (compound_id (fst pair) (snd pair)) (str ''mao_amama_ja''))
       declared_pairs = Some (str ''mao'', str ''amama'') \<and>
   parse_voice_id (compound_id (str ''kohaku'') (str ''nemutai'') @ str ''_ja'') =
     Some (str ''kohaku'', str ''nemutai'')"
proof (intro conjI)
  note inst = parse_voice_id_first_prefix_match [where v = "str ''mao_amama_ja''"]
  show "parse_voice_id (str ''mao_amama_ja'') =
     find (\<lambda>pair. prefix (compound_id (fst pair) (snd pair)) (str ''mao_amama_ja''))
       declared_pairs"
    by (rule inst [THEN conjunct1])
  show "find (\<lambda>pair. prefix (compound_id (fst pair) (snd pair)) (str ''mao_amama_ja''))
       declared_pairs = Some (str ''mao'', str ''amama'')"
    by code_simp
  have member: "(str ''kohaku'', str ''nemutai'') \<in> set declared_pairs"
    by (simp add: declared_pairs_eq)
  from inst [THEN conjunct2, THEN conjunct2, THEN conjunct1, rule_format, OF member]
  show "parse_voice_id (compound_id (str ''kohaku'') (str ''nemutai'') @ str ''_ja'') =
     Some (str ''kohaku'', str ''nemutai'')"
    by simp
qed

lemma registry_entry_declared:
  assumes "(sp, styles) \<in> set SPEAKERS" and "(st, sid) \<in> set styles"
  shows "(sp, st) \<in> set declared_pairs"
  using assms by (force simp: declared_pairs_def)

lemma resolves_literal_compounds:
  "parse_voice_id (str ''mao_normal'') = Some (str ''mao'', str ''normal'') \<and>
   parse_voice_id (str ''mao_futsuu'') = Some (str ''mao'', str ''futsuu'') \<and>
   parse_voice_id (str ''mao_amama'') = Some (str ''mao'', str ''amama'') \<and>
   parse_voice_id (str ''mao_ochitsuki'') = Some (str ''mao'', str ''ochitsuki'') \<and>
   parse_voice_id (str ''mao_karakai'') = Some (str ''mao'', str ''karakai'') \<and>
   parse_voice_id (str ''mao_setsunane'') = Some (str ''mao'', str ''setsunane'') \<and>
   parse_voice_id (str ''kohaku_normal'') = Some (str ''kohaku'', str ''normal'') \<and>
   parse_voice_id (str ''kohaku_amama'') = Some (str ''kohaku'', str ''amama'') \<and>
   parse_voice_id (str ''kohaku_setsunane'') = Some (str ''kohaku'', str ''setsunane'') \<and>
   parse_voice_id (str ''kohaku_nemutai'') = Some (str ''kohaku'', str ''nemutai'')"
  by (intro conjI) code_simp+

text \<open>
  C8. For every speaker of the registry and every style declared under it,
  \<open>parse_voice_id\<close> on the exact string made of the speaker name, an underscore and
  the style name returns exactly that pair; so for the ten identifiers the registry
  declares, from \<open>mao_normal\<close> to \<open>kohaku_nemutai\<close>.
\<close>

theorem parse_voice_id_declared_compound:
  assumes "(sp, styles) \<in> set SPEAKERS" and "(st, sid) \<in> set styles"
  shows "parse_voice_id (sp @ str ''_'' @ st) = Some (sp, st) \<and>
   parse_voice_id (str ''mao_normal'') = Some (str ''mao'', str ''normal'') \<and>
   parse_voice_id (str ''mao_futsuu'') = Some (str ''mao'', str ''futsuu'') \<and>
   parse_voice_id (str ''mao_amama'') = Some (str ''mao'', str ''amama'') \<and>
   parse_voice_id (str ''mao_ochitsuki'') = Some (str ''mao'', str ''ochitsuki'') \<and>
   parse_voice_id (str ''mao_karakai'') = Some (str ''mao'', str ''karakai'') \<and>
   parse_voice_id (str ''mao_setsunane'') = Some (str ''mao'', str ''setsunane'') \<and>
   parse_voice_id (str ''kohaku_normal'') = Some (str ''kohaku'', str ''normal'') \<and>
   parse_voice_id (str ''kohaku_amama'') = Some (str ''kohaku'', str ''amama'') \<and>
   parse_voice_id (str ''kohaku_setsunane'') = Some (str ''kohaku'', str ''setsunane'') \<and>
   parse_voice_id (str ''kohaku_nemutai'') = Some (str ''kohaku'', str ''nemutai'')"
proof
  from assms have "(sp, st) \<in> set declared_pairs"
    by (rule registry_entry_declared)
  then have "parse_voice_id (compound_id sp st @ []) = Some (sp, st)"
    by (rule resolves_with_suffix)
  then show "parse_voice_id (sp @ str ''_'' @ st) = Some (sp, st)"
    by (simp add: compound_id_def)
  show "parse_voice_id (str ''mao_normal'') = Some (str ''mao'', str ''normal'') \<and>
   parse_voice_id (str ''mao_futsuu'') = Some (str ''mao'', str ''futsuu'') \<and>
   parse_voice_id (str ''mao_amama'') = Some (str ''mao'', str ''amama'') \<and>
   parse_voice_id (str ''mao_ochitsuki'') = Some (str ''mao'', str ''ochitsuki'') \<and>
   parse_voice_id (str ''mao_karakai'') = Some (str ''mao'', str ''karakai'') \<and>
   parse_voice_id (str ''mao_setsunane'') = Some (str ''mao'', str ''setsunane'') \<and>
   parse_voice_id (str ''kohaku_normal'') = Some (str ''kohaku'', str ''normal'') \<and>
   parse_voice_id (str ''kohaku_amama'') = Some (str ''kohaku'', str ''amama'') \<and>
   parse_voice_id (str ''kohaku_setsunane'') = Some (str ''kohaku'', str ''setsunane'') \<and>
   parse_voice_id (str ''kohaku_nemutai'') = Some (str ''kohaku'', str ''nemutai'')"
    by (rule resolves_literal_compounds)
qed

theorem parse_voice_id_declared_compound_witness:
  "(str ''kohaku'',
      [(str ''normal'', 1878365376), (str ''amama'', 1878365377),
       (str ''setsunane'', 1878365378), (str ''nemutai'', 1878365379)]) \<in> set SPEAKERS \<and>
   (str ''nemutai'', 1878365379) \<in>
      set [(str ''normal'', 1878365376 :: int), (str ''amama'', 1878365377),
           (str ''setsunane'', 1878365378), (str ''nemutai'', 1878365379)] \<and>
   parse_voice_id (str ''kohaku'' @ str ''_'' @ str ''nemutai'') =
     Some (str ''kohaku'', str ''nemutai'')"
proof (intro conjI)
  show speaker: "(str ''kohaku'',
      [(str ''normal'', 1878365376), (str ''amama'', 1878365377),
       (str ''setsunane'', 1878365378), (str ''nemutai'', 1878365379)]) \<in> set SPEAKERS"
    by (simp add: SPEAKERS_def)
  show style: "(str ''nemutai'', 1878365379) \<in>
      set [(str ''normal'', 1878365376 :: int), (str ''amama'', 1878365377),
           (str ''setsunane'', 1878365378), (str ''nemutai'', 1878365379)]"
    by simp
  show "parse_voice_id (str ''kohaku'' @ str ''_'' @ str ''nemutai'') =
     Some (str ''kohaku'', str ''nemutai'')"
    by (rule parse_voice_id_declared_compound [OF speaker style, THEN conjunct1])
qed

section \<open>Synthesis\<close>

lemma parse_kohaku_normal:
  "parse_voice_id (str ''kohaku_normal'') = Some (str ''kohaku'', str ''normal'')"
  by code_simp

lemma style_id_kohaku_normal: "style_id_of (str ''kohaku'') (str ''normal'') = Inr 1878365376"
  by code_simp

lemma synthesize_invalid:
  assumes "parse_voice_id vid = None"
  shows "synthesize E env inp vid spd n = (Inl (ValueError (invalid_voice_message vid)), n)"
  using assms by (simp add: synthesize_def)

lemma synthesize_first_raises:
  assumes "parse_voice_id vid = Some (sp, st)"
    and "style_id_of sp st = Inr sid"
    and "E (world n) (audio_query_request env sid inp) = (Raises e, w1)"
  shows "synthesize E env inp vid spd n =
     (Inl e, \<lparr>calls = calls n @ [audio_query_request env sid inp], world = w1\<rparr>)"
  using assms by (simp add: synthesize_def send_def)

lemma synthesize_first_status:
  assumes "parse_voice_id vid = Some (sp, st)"
    and "style_id_of sp st = Inr sid"
    and "E (world n) (audio_query_request env sid inp) = (Response r, w1)"
    and "status_code r < 200 \<or> 299 < status_code r"
  shows "synthesize E env inp vid spd n =
     (Inl (HTTPStatusError (status_code r)),
      \<lparr>calls = calls n @ [audio_query_request env sid inp], world = w1\<rparr>)"
  using assms by (auto simp: synthesize_def send_def raise_for_status_def)





lemma raise_for_status_ok:
  "(raise_for_status r = Inr ()) = (200 \<le> status_code r \<and> status_code r \<le> 299)"
  by (simp add: raise_for_status_def)

lemma raise_for_status_fail:
  "(raise_for_status r = Inl e) =
     ((status_code r < 200 \<or> 299 < status_code r) \<and> e = HTTPStatusError (status_code r))"
  by (auto simp: raise_for_status_def)



lemma synthesize_calls_shape:
  assumes "parse_voice_id vid = Some (sp, st)"
    and "style_id_of sp st = Inr sid"
  shows "\<exists>new. calls (snd (synthesize E env inp vid spd n)) = calls n @ new \<and>
     list_all (\<lambda>q. map_of (params q) (str ''speaker'') = Some (PInt sid)) new"
  using assms
  by (auto simp: synthesize_def send_def audio_query_request_def synthesis_request_def
      split: prod.splits outcome.splits sum.splits)

text \<open>
  C4. For every text and speed, when the resolver finds no match for the voice
  identifier, \<open>synthesize\<close> raises the \<open>ValueError\<close> whose message quotes the
  identifier, and the network is as it was: no request has been issued.
\<close>

theorem synthesize_invalid_voice_no_call:
  assumes "parse_voice_id vid = None"
  shows "synthesize E env inp vid spd n = (Inl (ValueError (invalid_voice_message vid)), n) \<and>
    calls (snd (synthesize E env inp vid spd n)) = calls n \<and>
    is_ValueError (ValueError (invalid_voice_message vid)) \<and>
    invalid_voice_message vid =
      str ''Invalid voice_id '' @ squote @ vid @ squote @
      str ''. Expected format: '' @ squote @ str ''speaker_style'' @ squote @
      str '' (e.g., '' @ squote @ str ''kohaku_normal'' @ squote @ str '')''"
  using assms by (simp add: synthesize_invalid invalid_voice_message_def str_def)

theorem synthesize_invalid_voice_no_call_witness:
  "parse_voice_id (str ''unknown_voice'') = None \<and>
   synthesize (scripted []) None (str ''hello'') (str ''unknown_voice'') (3 / 2) fresh =
     (Inl (ValueError (invalid_voice_message (str ''unknown_voice''))), fresh) \<and>
   calls fresh = []"
proof (intro conjI)
  show unknown: "parse_voice_id (str ''unknown_voice'') = None"
    by code_simp
  show "synthesize (scripted []) None (str ''hello'') (str ''unknown_voice'') (3 / 2) fresh =
     (Inl (ValueError (invalid_voice_message (str ''unknown_voice''))), fresh)"
    by (rule synthesize_invalid_voice_no_call [OF unknown, THEN conjunct1])
  show "calls fresh = []"
    by (simp add: fresh_def)
qed








lemma failing_engine_first:
  "failing_engine (world fresh) q =
     (Response \<lparr>status_code = 500, content = [],
        json_result = Inl (str ''Expecting value'')\<rparr>, 1)"
  by (simp add: failing_engine_def scripted_def fresh_def server_error_def)

lemma unreachable_engine_first:
  "unreachable_engine (world fresh) q = (Raises TransportError, 1)"
  by (simp add: unreachable_engine_def scripted_def fresh_def)












text \<open>
  C6. When the audio query of a resolved voice fails (the call raises, or the status is
  outside 200 to 299), \<open>synthesize\<close> raises that exception (the \<open>HTTPStatusError\<close>
  of the status for a response): the audio query is the only request issued, so the
  synthesis request is never made, and there is no audio result.
\<close>

theorem synthesize_first_call_failure_aborts:
  assumes "parse_voice_id vid = Some (sp, st)"
    and "style_id_of sp st = Inr sid"
    and "E (world n) (audio_query_request env sid inp) = (out, w1)"
    and "out = Raises e \<or>
         (\<exists>r. out = Response r \<and> (status_code r < 200 \<or> 299 < status_code r) \<and>
              e = HTTPStatusError (status_code r))"
  shows "synthesize E env inp vid spd n =
     (Inl e, \<lparr>calls = calls n @ [audio_query_request env sid inp], world = w1\<rparr>)"
proof -
  from assms(4) show ?thesis
  proof
    assume "out = Raises e"
    with assms(3) have "E (world n) (audio_query_request env sid inp) = (Raises e, w1)"
      by simp
    then show ?thesis
      by (rule synthesize_first_raises [where E = E and n = n, OF assms(1) assms(2)])
  next
    assume "\<exists>r. out = Response r \<and> (status_code r < 200 \<or> 299 < status_code r) \<and>
              e = HTTPStatusError (status_code r)"
    then obtain r where r: "out = Response r" "status_code r < 200 \<or> 299 < status_code r"
        "e = HTTPStatusError (status_code r)"
      by blast
    from assms(3) r(1) have "E (world n) (audio_query_request env sid inp) = (Response r, w1)"
      by simp
    from synthesize_first_status [where E = E and n = n, OF assms(1) assms(2) this r(2)] r(3)
    show ?thesis by simp
  qed
qed

lemma style_id_of_entry:
  assumes "style_id_of sp st = Inr sid"
  shows "\<exists>styles. (sp, styles) \<in> set SPEAKERS \<and> (st, sid) \<in> set styles"
  using assms
  by (auto simp: style_id_of_def split: option.splits dest: map_of_SomeD)

lemma registry_ids:
  assumes "(sp, styles) \<in> set SPEAKERS" and "(st, sid) \<in> set styles"
  shows "sid \<in> set [888753760, 888753761, 888753762, 888753763, 888753764, 888753765,
     1878365376, 1878365377, 1878365378, 1878365379]"
  using assms by (auto simp: SPEAKERS_def)

text \<open>
  C7. The requests one \<open>synthesize\<close> issues are either none, or they all carry as
  \<open>speaker\<close> one and the same style id, which the registry \<open>SPEAKERS\<close> declares for
  the style, under the speaker, of the pair the resolver found for the requested voice;
  it is one of the ten ids of the registry.
\<close>

theorem synthesize_style_id_from_registry:
  "\<exists>new. calls (snd (synthesize E env inp vid spd n)) = calls n @ new \<and>
     (new = [] \<or>
      (\<exists>sp st styles sid.
         parse_voice_id vid = Some (sp, st) \<and>
         (sp, styles) \<in> set SPEAKERS \<and> (st, sid) \<in> set styles \<and>
         map_of SPEAKERS sp = Some styles \<and> map_of styles st = Some sid \<and>
         sid \<in> set [888753760, 888753761, 888753762, 888753763, 888753764, 888753765,
           1878365376, 1878365377, 1878365378, 1878365379] \<and>
         list_all (\<lambda>q. map_of (params q) (str ''speaker'') = Some (PInt sid)) new))"
proof (cases "parse_voice_id vid")
  case None
  then have "calls (snd (synthesize E env inp vid spd n)) = calls n @ []"
    by (simp add: synthesize_invalid)
  then show ?thesis by blast
next
  case (Some pair)
  obtain sp st where pair: "pair = (sp, st)" by (cases pair)
  from Some pair have parsed: "parse_voice_id vid = Some (sp, st)" by simp
  then have declared: "(sp, st) \<in> set declared_pairs"
    by (rule parse_voice_id_declared)
  then obtain sid where sid: "style_id_of sp st = Inr sid"
    using style_id_of_declared by blast
  then obtain styles where lookup: "map_of SPEAKERS sp = Some styles" "map_of styles st = Some sid"
    by (auto simp: style_id_of_def split: option.splits)
  then have entry: "(sp, styles) \<in> set SPEAKERS" "(st, sid) \<in> set styles"
    by (auto dest: map_of_SomeD)
  then have known: "sid \<in> set [888753760, 888753761, 888753762, 888753763, 888753764,
      888753765, 1878365376, 1878365377, 1878365378, 1878365379]"
    by (rule registry_ids)
  from synthesize_calls_shape [OF parsed sid]
  obtain new where "calls (snd (synthesize E env inp vid spd n)) = calls n @ new"
    and "list_all (\<lambda>q. map_of (params q) (str ''speaker'') = Some (PInt sid)) new"
    by blast
  with parsed lookup entry known show ?thesis by blast
qed

text \<open>
  Outside C5: with a speed other than 1.0 and a returned document that is not a JSON
  object, the item assignment raises and the synthesis request is not made.
\<close>

lemma synthesize_speed_on_non_object:
  assumes "parse_voice_id vid = Some (sp, st)"
    and "style_id_of sp st = Inr sid"
    and "E (world n) (audio_query_request env sid inp) = (Response r1, w1)"
    and "200 \<le> status_code r1 \<and> status_code r1 \<le> 299"
    and "json_result r1 = Inr doc"
    and "spd \<noteq> 1"
    and "\<nexists>fields. doc = JObj fields"
  shows "synthesize E env inp vid spd n =
     (Inl TypeError, \<lparr>calls = calls n @ [audio_query_request env sid inp], world = w1\<rparr>)"
proof -
  from assms(7) have "py_setitem doc (str ''speedScale'') (JFloat (Finite spd)) = Inl TypeError"
    by (cases doc) simp_all
  with assms(1-6) show ?thesis
    by (simp add: synthesize_def send_def raise_for_status_def adjust_speed_def)
qed

text \<open>
  Outside C5 as well: a returned document that holds an infinity or a not-a-number is
  not forwarded at speed 1.0; the synthesis request is not made.
\<close>

lemma synthesize_out_of_range_document:
  assumes "parse_voice_id vid = Some (sp, st)"
    and "style_id_of sp st = Inr sid"
    and "E (world n) (audio_query_request env sid inp) = (Response r1, w1)"
    and "200 \<le> status_code r1 \<and> status_code r1 \<le> 299"
    and "json_result r1 = Inr doc"
    and "out_of_range doc"
  shows "synthesize E env inp vid 1 n =
     (Inl OutOfRangeFloat, \<lparr>calls = calls n @ [audio_query_request env sid inp], world = w1\<rparr>)"
proof -
  from assms(6) have "doc \<noteq> JNull"
    by auto
  with assms show ?thesis
    by (simp add: synthesize_def send_def raise_for_status_def adjust_speed_def
        json_argument_def)
qed




theorem synthesize_first_call_failure_aborts_witness:
  "synthesize failing_engine None (str ''hello'') (str ''kohaku_normal'') 1 fresh =
     (Inl (HTTPStatusError 500),
      \<lparr>calls = calls fresh @ [audio_query_request None 1878365376 (str ''hello'')], world = 1\<rparr>) \<and>
   synthesize unreachable_engine None (str ''hello'') (str ''kohaku_normal'') 1 fresh =
     (Inl TransportError,
      \<lparr>calls = calls fresh @ [audio_query_request None 1878365376 (str ''hello'')], world = 1\<rparr>)"
proof
  let ?r = "\<lparr>status_code = 500, content = [], json_result = Inl (str ''Expecting value'')\<rparr>"
  have bad: "Response ?r = Raises (HTTPStatusError 500) \<or>
      (\<exists>r. Response ?r = Response r \<and> (status_code r < 200 \<or> 299 < status_code r) \<and>
           HTTPStatusError 500 = HTTPStatusError (status_code r))"
    by simp
  show "synthesize failing_engine None (str ''hello'') (str ''kohaku_normal'') 1 fresh =
     (Inl (HTTPStatusError 500),
      \<lparr>calls = calls fresh @ [audio_query_request None 1878365376 (str ''hello'')], world = 1\<rparr>)"
    by (rule synthesize_first_call_failure_aborts
        [where E = failing_engine and n = fresh,
         OF parse_kohaku_normal style_id_kohaku_normal failing_engine_first bad])
  have down: "Raises TransportError = Raises TransportError \<or>
      (\<exists>r. Raises TransportError = Response r \<and> (status_code r < 200 \<or> 299 < status_code r) \<and>
           TransportError = HTTPStatusError (status_code r))"
    by simp
  show "synthesize unreachable_engine None (str ''hello'') (str ''kohaku_normal'') 1 fresh =
     (Inl TransportError,
      \<lparr>calls = calls fresh @ [audio_query_request None 1878365376 (str ''hello'')], world = 1\<rparr>)"
    by (rule synthesize_first_call_failure_aborts
        [where E = unreachable_engine and n = fresh,
         OF parse_kohaku_normal style_id_kohaku_normal unreachable_engine_first down])
qed

theorem synthesize_style_id_from_registry_witness:
  "\<exists>new. calls (snd (synthesize happy_engine None (str ''hello'') (str ''kohaku_normal'') 1 fresh)) =
       calls fresh @ new \<and>
     (new = [] \<or>
      (\<exists>sp st styles sid.
         parse_voice_id (str ''kohaku_normal'') = Some (sp, st) \<and>
         (sp, styles) \<in> set SPEAKERS \<and> (st, sid) \<in> set styles \<and>
         map_of SPEAKERS sp = Some styles \<and> map_of styles st = Some sid \<and>
         sid \<in> set [888753760, 888753761, 888753762, 888753763, 888753764, 888753765,
           1878365376, 1878365377, 1878365378, 1878365379] \<and>
         list_all (\<lambda>q. map_of (params q) (str ''speaker'') = Some (PInt sid)) new))"
  by (rule synthesize_style_id_from_registry)

section \<open>The speech route\<close>

lemma create_speech_try_rejects:
  assumes "input req = [] \<or> length (strip (input req)) = 0 \<or> 5000 < length (input req)"
  shows "\<exists>detail. create_speech_try E env req n = (Inl (HTTPException 400 detail), n)"
  using assms by (auto simp: create_speech_try_def)

lemma create_speech_rejects:
  assumes "input req = [] \<or> length (strip (input req)) = 0 \<or> 5000 < length (input req)"
  shows "create_speech E env req n =
     (Inl (HTTPException 500 (str ''Failed to generate speech'')), n)"
  using assms by (auto simp: create_speech_def create_speech_try_def)

lemma create_speech_try_accepts:
  assumes "strip (input req) \<noteq> []" and "length (input req) \<le> 5000"
  shows "create_speech_try E env req n =
     (case synthesize E env (input req) (voice req) (speed req) n of
        (Inl e, n1) \<Rightarrow> (Inl e, n1)
      | (Inr audio_data, n1) \<Rightarrow>
          (Response_init audio_data (str ''audio/wav'')
             [(str ''Content-Disposition'',
                 str ''attachment; filename='' @ dquote @ str ''speech_'' @
                 voice req @ str ''.wav'' @ dquote),
              (str ''X-Model-Used'', str ''aivis-speech''),
              (str ''X-Voice-Used'', voice req)], n1))"
proof -
  from assms(1) have "input req \<noteq> []"
    by (auto simp: strip_def)
  with assms show ?thesis
    by (simp add: create_speech_try_def)
qed

text \<open>
  A voice with a code point above 255 cannot go into the response headers: the
  constructor raises, and the route answers 400 although the audio was synthesized.
\<close>

lemma Response_init_not_latin1:
  assumes "\<not> latin1 v"
  shows "Response_init c t
     [(str ''Content-Disposition'',
         str ''attachment; filename='' @ dquote @ str ''speech_'' @ v @ str ''.wav'' @ dquote),
      (str ''X-Model-Used'', str ''aivis-speech''),
      (str ''X-Voice-Used'', v)] = Inl UnicodeEncodeError"
  using assms by (simp add: Response_init_def)

text \<open>
  C1. The claim is that an empty, all-white-space or over-long input is answered with
  HTTP 400. The handler raises \<open>HTTPException(400)\<close> inside its own \<open>try\<close>, where
  \<open>except Exception\<close> catches it and raises \<open>HTTPException(500)\<close> in its place: for
  the empty input, for three spaces and for 5001 characters the answer is status 500,
  and no request has been sent to the engine.
\<close>

theorem create_speech_rejection_status:
  "create_speech happy_engine None empty_request fresh =
     (Inl (HTTPException 500 (str ''Failed to generate speech'')), fresh) \<and>
   create_speech happy_engine None (request_with (str ''   '')) fresh =
     (Inl (HTTPException 500 (str ''Failed to generate speech'')), fresh) \<and>
   create_speech happy_engine None (request_with (replicate 5001 97)) fresh =
     (Inl (HTTPException 500 (str ''Failed to generate speech'')), fresh)"
proof (intro conjI)
  show "create_speech happy_engine None empty_request fresh =
     (Inl (HTTPException 500 (str ''Failed to generate speech'')), fresh)"
    by (rule create_speech_rejects) (simp add: empty_request_def)
  show "create_speech happy_engine None (request_with (str ''   '')) fresh =
     (Inl (HTTPException 500 (str ''Failed to generate speech'')), fresh)"
    by (rule create_speech_rejects)
       (simp add: request_with_def empty_request_def strip_def str_def py_isspace_def)
  show "create_speech happy_engine None (request_with (replicate 5001 97)) fresh =
     (Inl (HTTPException 500 (str ''Failed to generate speech'')), fresh)"
    by (rule create_speech_rejects) (simp add: request_with_def empty_request_def)
qed

section \<open>The health route\<close>

lemma health_check_route_endpoint:
  "\<exists>status. fst (health_check_route E env n) =
     JObj [(str ''status'', status), (str ''provider'', JStr (str ''aivis-speech'')),
           (str ''endpoint'', JStr (str ''http://127.0.0.1:10101''))]"
  by (simp add: health_check_route_def split: prod.splits)

text \<open>
  C10. The claim is that the health route reports the configured engine endpoint. With
  \<open>AIVIS_API_ENDPOINT\<close> set to \<open>http://engine:10101\<close> the probe goes to that address
  and the route still reports \<open>http://127.0.0.1:10101\<close>.
\<close>

theorem health_check_route_configured_endpoint:
  "health_check_route happy_engine (Some (str ''http://engine:10101'')) fresh =
     (JObj [(str ''status'', JStr (str ''healthy'')),
            (str ''provider'', JStr (str ''aivis-speech'')),
            (str ''endpoint'', JStr (str ''http://127.0.0.1:10101''))],
      \<lparr>calls = [\<lparr>verb = GET, url = str ''http://engine:10101'' @ str ''/speakers'',
                  params = [], json_body = None, timeout = 5\<rparr>],
       world = 1\<rparr>) \<and>
   BASE_URL (Some (str ''http://engine:10101'')) = str ''http://engine:10101'' \<and>
   str ''http://127.0.0.1:10101'' \<noteq> str ''http://engine:10101''"
  by (simp add: health_check_route_def health_check_def send_def speakers_request_def
      BASE_URL_def happy_engine_def scripted_def fresh_def ok_json_def str_def)

section \<open>The voice catalog\<close>

lemma voice_record_represents:
  assumes "py_getitem speaker (str ''name'') = Inr (JStr sp)"
    and "style_represents style p"
  shows "voice_record py_str speaker style = Inr (flat_voice sp p)"
  using assms by (simp add: voice_record_def style_represents_def flat_voice_def)

lemma voices_of_styles_represents:
  assumes "list_all2 style_represents sts styles"
    and "py_getitem speaker (str ''name'') = Inr (JStr sp)"
  shows "voices_of_styles py_str speaker sts = Inr (map (flat_voice sp) styles)"
  using assms
  by (induction sts styles rule: list_all2_induct) (simp_all add: voice_record_represents)

lemma speaker_represents_styles:
  assumes "speaker_represents speaker entry"
  shows "py_getitem speaker (str ''name'') = Inr (JStr (fst entry)) \<and>
     (\<exists>sts. py_get speaker (str ''styles'') (JArr []) = Inr (JArr sts) \<and>
        list_all2 style_represents sts (snd entry))"
  using assms
  by (auto simp: speaker_represents_def split: sum.splits json.splits)

lemma voices_of_speakers_represents:
  assumes "list_all2 speaker_represents sps catalog"
  shows "voices_of_speakers py_str sps = Inr (flatten_voices catalog)"
  using assms
proof (induction sps catalog rule: list_all2_induct)
  case Nil
  show ?case by (simp add: flatten_voices_def)
next
  case (Cons speaker sps entry catalog)
  from speaker_represents_styles [OF Cons.hyps(1)]
  obtain sts where name: "py_getitem speaker (str ''name'') = Inr (JStr (fst entry))"
    and styles: "py_get speaker (str ''styles'') (JArr []) = Inr (JArr sts)"
    and each: "list_all2 style_represents sts (snd entry)"
    by blast
  have "voices_of_styles py_str speaker sts = Inr (map (flat_voice (fst entry)) (snd entry))"
    using each name by (rule voices_of_styles_represents)
  with styles Cons.IH show ?case
    by (simp add: flatten_voices_def)
qed

lemma get_available_voices_catalog:
  assumes "E (world n) (speakers_request env 10) = (Response r, w1)"
    and "200 \<le> status_code r \<and> status_code r \<le> 299"
    and "json_result r = Inr (JArr sps)"
    and "list_all2 speaker_represents sps catalog"
  shows "get_available_voices E env py_str n =
     (flatten_voices catalog, \<lparr>calls = calls n @ [speakers_request env 10], world = w1\<rparr>)"
  using assms(1,2,3) voices_of_speakers_represents [OF assms(4), of py_str]
  by (simp add: get_available_voices_def get_available_voices_try_def send_def
      raise_for_status_def)

lemma get_available_voices_swallows:
  assumes "get_available_voices_try E env py_str n = (Inl e, n1)"
  shows "get_available_voices E env py_str n = ([], n1)"
  using assms by (simp add: get_available_voices_def)

lemma get_available_voices_engine_failure:
  assumes "E (world n) (speakers_request env 10) = (out, w1)"
    and "(\<exists>e. out = Raises e) \<or>
         (\<exists>r. out = Response r \<and>
            (status_code r < 200 \<or> 299 < status_code r \<or> (\<exists>m. json_result r = Inl m)))"
  shows "get_available_voices E env py_str n =
     ([], \<lparr>calls = calls n @ [speakers_request env 10], world = w1\<rparr>)"
  using assms
  by (auto simp: get_available_voices_def get_available_voices_try_def send_def
      raise_for_status_def)

lemma flatten_sample:
  "flatten_voices [(str ''kohaku'', [(str ''normal'', 1878365376)])] =
     [JObj [(str ''id'', JStr (str ''kohaku_normal'')),
            (str ''name'', JStr (str ''normal'')),
            (str ''speaker'', JStr (str ''kohaku'')),
            (str ''style_id'', JInt 1878365376)]]"
  by (simp add: flatten_voices_def flat_voice_def str_def)

lemma get_available_voices_calls:
  "calls (snd (get_available_voices E env py_str n)) = calls n @ [speakers_request env 10]"
  by (auto simp: get_available_voices_def get_available_voices_try_def send_def
      split: prod.splits outcome.splits sum.splits)

text \<open>
  C9, as amended. When the engine returns a catalog, \<open>get_available_voices\<close> returns
  one record for each speaker and each of its styles, in order, with the keys \<open>id\<close>
  (\<open>"{speaker}_{style}"\<close>), \<open>name\<close> (the style name), \<open>speaker\<close> (the speaker name)
  and \<open>style_id\<close> (the style id); the catalog of kohaku with the style normal,
  1878365376, gives the one record of \<open>kohaku_normal\<close>. Whenever its body raises, and
  so when the call fails, the status is not a success or the body is not JSON, it
  returns the empty list.
\<close>

theorem get_available_voices_flattens_or_empty:
  "(\<forall>r w1 sps catalog.
      E (world n) (speakers_request env 10) = (Response r, w1) \<and>
      200 \<le> status_code r \<and> status_code r \<le> 299 \<and>
      json_result r = Inr (JArr sps) \<and> list_all2 speaker_represents sps catalog \<longrightarrow>
      get_available_voices E env py_str n =
        (flatten_voices catalog, \<lparr>calls = calls n @ [speakers_request env 10], world = w1\<rparr>)) \<and>
   flatten_voices [(str ''kohaku'', [(str ''normal'', 1878365376)])] =
     [JObj [(str ''id'', JStr (str ''kohaku_normal'')),
            (str ''name'', JStr (str ''normal'')),
            (str ''speaker'', JStr (str ''kohaku'')),
            (str ''style_id'', JInt 1878365376)]] \<and>
   (\<forall>e n1. get_available_voices_try E env py_str n = (Inl e, n1) \<longrightarrow>
      get_available_voices E env py_str n = ([], n1)) \<and>
   (\<forall>out w1.
      E (world n) (speakers_request env 10) = (out, w1) \<and>
      ((\<exists>e. out = Raises e) \<or>
       (\<exists>r. out = Response r \<and>
          (status_code r < 200 \<or> 299 < status_code r \<or> (\<exists>m. json_result r = Inl m)))) \<longrightarrow>
      get_available_voices E env py_str n =
        ([], \<lparr>calls = calls n @ [speakers_request env 10], world = w1\<rparr>))"
proof (intro conjI allI impI)
  fix r w1 sps catalog
  assume "E (world n) (speakers_request env 10) = (Response r, w1) \<and>
      200 \<le> status_code r \<and> status_code r \<le> 299 \<and>
      json_result r = Inr (JArr sps) \<and> list_all2 speaker_represents sps catalog"
  then show "get_available_voices E env py_str n =
        (flatten_voices catalog, \<lparr>calls = calls n @ [speakers_request env 10], world = w1\<rparr>)"
    using get_available_voices_catalog [where E = E and n = n] by blast
next
  show "flatten_voices [(str ''kohaku'', [(str ''normal'', 1878365376)])] =
     [JObj [(str ''id'', JStr (str ''kohaku_normal'')),
            (str ''name'', JStr (str ''normal'')),
            (str ''speaker'', JStr (str ''kohaku'')),
            (str ''style_id'', JInt 1878365376)]]"
    by (rule flatten_sample)
next
  fix e n1
  assume "get_available_voices_try E env py_str n = (Inl e, n1)"
  then show "get_available_voices E env py_str n = ([], n1)"
    by (rule get_available_voices_swallows)
next
  fix out w1
  assume "E (world n) (speakers_request env 10) = (out, w1) \<and>
      ((\<exists>e. out = Raises e) \<or>
       (\<exists>r. out = Response r \<and>
          (status_code r < 200 \<or> 299 < status_code r \<or> (\<exists>m. json_result r = Inl m))))"
  then show "get_available_voices E env py_str n =
        ([], \<lparr>calls = calls n @ [speakers_request env 10], world = w1\<rparr>)"
    using get_available_voices_engine_failure [where E = E and n = n] by blast
qed

theorem get_available_voices_flattens_or_empty_witness:
  "get_available_voices catalog_engine None (\<lambda>x. []) fresh =
     ([JObj [(str ''id'', JStr (str ''kohaku_normal'')),
             (str ''name'', JStr (str ''normal'')),
             (str ''speaker'', JStr (str ''kohaku'')),
             (str ''style_id'', JInt 1878365376)]],
      \<lparr>calls = calls fresh @ [speakers_request None 10], world = 1\<rparr>) \<and>
   get_available_voices failing_engine None (\<lambda>x. []) fresh =
     ([], \<lparr>calls = calls fresh @ [speakers_request None 10], world = 1\<rparr>)"
proof
  let ?r = "\<lparr>status_code = 200, content = [], json_result = Inr sample_catalog\<rparr>"
  let ?sps = "[JObj [(str ''name'', JStr (str ''kohaku'')),
                 (str ''styles'',
                    JArr [JObj [(str ''name'', JStr (str ''normal'')),
                                (str ''id'', JInt 1878365376)]])]]"
  let ?catalog = "[(str ''kohaku'', [(str ''normal'', 1878365376 :: int)])]"
  note inst = get_available_voices_flattens_or_empty
    [where E = catalog_engine and n = fresh and env = None and py_str = "\<lambda>x. []"]
  have pre: "catalog_engine (world fresh) (speakers_request None 10) = (Response ?r, 1) \<and>
      200 \<le> status_code ?r \<and> status_code ?r \<le> 299 \<and>
      json_result ?r = Inr (JArr ?sps) \<and> list_all2 speaker_represents ?sps ?catalog"
    by (simp add: catalog_engine_def scripted_def fresh_def ok_json_def sample_catalog_def
        speaker_represents_def style_represents_def str_def)
  from inst [THEN conjunct1, rule_format, OF pre] inst [THEN conjunct2, THEN conjunct1]
  show "get_available_voices catalog_engine None (\<lambda>x. []) fresh =
     ([JObj [(str ''id'', JStr (str ''kohaku_normal'')),
             (str ''name'', JStr (str ''normal'')),
             (str ''speaker'', JStr (str ''kohaku'')),
             (str ''style_id'', JInt 1878365376)]],
      \<lparr>calls = calls fresh @ [speakers_request None 10], world = 1\<rparr>)"
    by simp
next
  let ?r = "\<lparr>status_code = 500, content = [], json_result = Inl (str ''Expecting value'')\<rparr>"
  note inst = get_available_voices_flattens_or_empty
    [where E = failing_engine and n = fresh and env = None and py_str = "\<lambda>x. []"]
  have pre: "failing_engine (world fresh) (speakers_request None 10) = (Response ?r, 1) \<and>
      ((\<exists>e. Response ?r = Raises e) \<or>
       (\<exists>r. Response ?r = Response r \<and>
          (status_code r < 200 \<or> 299 < status_code r \<or> (\<exists>m. json_result r = Inl m))))"
    by (simp add: failing_engine_def scripted_def fresh_def server_error_def)
  show "get_available_voices failing_engine None (\<lambda>x. []) fresh =
     ([], \<lparr>calls = calls fresh @ [speakers_request None 10], world = 1\<rparr>)"
    by (rule inst [THEN conjunct2, THEN conjunct2, THEN conjunct2, rule_format, OF pre])
qed

text \<open>
  C9 as written fails: the record has the key \<open>style_id\<close> and no key \<open>styleId\<close>.
\<close>

theorem get_available_voices_style_key_counterexample:
  "fst (get_available_voices catalog_engine None (\<lambda>x. []) fresh) =
     [JObj [(str ''id'', JStr (str ''kohaku_normal'')),
            (str ''name'', JStr (str ''normal'')),
            (str ''speaker'', JStr (str ''kohaku'')),
            (str ''style_id'', JInt 1878365376)]] \<and>
   fst (get_available_voices catalog_engine None (\<lambda>x. []) fresh) \<noteq>
     [JObj [(str ''id'', JStr (str ''kohaku_normal'')),
            (str ''name'', JStr (str ''normal'')),
            (str ''speaker'', JStr (str ''kohaku'')),
            (str ''styleId'', JInt 1878365376)]] \<and>
   map_of [(str ''id'', JStr (str ''kohaku_normal'')),
           (str ''name'', JStr (str ''normal'')),
           (str ''speaker'', JStr (str ''kohaku'')),
           (str ''style_id'', JInt 1878365376)] (str ''styleId'') = None"
proof -
  let ?r = "\<lparr>status_code = 200, content = [], json_result = Inr sample_catalog\<rparr>"
  let ?sps = "[JObj [(str ''name'', JStr (str ''kohaku'')),
                 (str ''styles'',
                    JArr [JObj [(str ''name'', JStr (str ''normal'')),
                                (str ''id'', JInt 1878365376)]])]]"
  let ?catalog = "[(str ''kohaku'', [(str ''normal'', 1878365376 :: int)])]"
  have "catalog_engine (world fresh) (speakers_request None 10) = (Response ?r, 1)"
    by (simp add: catalog_engine_def scripted_def fresh_def ok_json_def)
  moreover have "200 \<le> status_code ?r \<and> status_code ?r \<le> 299"
    by simp
  moreover have "json_result ?r = Inr (JArr ?sps)"
    by (simp add: sample_catalog_def)
  moreover have "list_all2 speaker_represents ?sps ?catalog"
    by (simp add: speaker_represents_def style_represents_def str_def)
  ultimately have "get_available_voices catalog_engine None (\<lambda>x. []) fresh =
      (flatten_voices ?catalog, \<lparr>calls = calls fresh @ [speakers_request None 10], world = 1\<rparr>)"
    by (rule get_available_voices_catalog [where E = catalog_engine and n = fresh])
  then have run: "fst (get_available_voices catalog_engine None (\<lambda>x. []) fresh) =
     [JObj [(str ''id'', JStr (str ''kohaku_normal'')),
            (str ''name'', JStr (str ''normal'')),
            (str ''speaker'', JStr (str ''kohaku'')),
            (str ''style_id'', JInt 1878365376)]]"
    by (simp add: flatten_sample)
  have keys: "str ''style_id'' \<noteq> str ''styleId''"
    by (simp add: str_def)
  show ?thesis
    by (simp add: run keys) (simp add: str_def)
qed

end
